theory Spec2Isabelle
  imports Main "HOL-Library.Word"
begin

unbundle bit_operations_syntax

section \<open>Go values\<close>

text \<open>
  Go's fixed-width integers are words: \<open>int64\<close> arithmetic wraps around and its
  comparisons are the signed ones (\<open>\<le>s\<close>, \<open><s\<close>). A run-time panic is a value of
  its own, so that a call that would bring the process down is a branch of the model.
\<close>

type_synonym byte = "8 word"
type_synonym int64 = "64 word"
type_synonym uint32 = "32 word"

datatype panic = NilDereference | TypeAssertion | SliceBounds

datatype 'a outcome = Panic panic | Return 'a

section \<open>rpc.go: the client record and its health state\<close>

text \<open>
  The fields of \<open>RPCClient\<close> that the functions below read or write. \<open>Url\<close>,
  \<open>login\<close>, \<open>password\<close>, \<open>client\<close> and \<open>info\<close> only configure the HTTP
  exchange, whose result is an input of the model (see \<open>transport\<close>).
  The embedded mutex serialises \<open>markSick\<close>, \<open>markAlive\<close> and \<open>Sick\<close>; each of
  them is one atomic step on the record.
\<close>

record RPCClient =
  sickRate :: int64
  successRate :: int64
  Accepts :: int64
  Rejects :: int64
  LastSubmissionAt :: int64
  FailsCount :: int64
  Name :: string
  sick :: bool

text \<open>The client \<open>NewRPCClient\<close> builds when the URL parses: every counter is Go's zero value.\<close>

definition NewRPCClient :: "string \<Rightarrow> RPCClient" where
  "NewRPCClient name =
     \<lparr>sickRate = 0, successRate = 0, Accepts = 0, Rejects = 0, LastSubmissionAt = 0,
      FailsCount = 0, Name = name, sick = False\<rparr>"

definition Sick :: "RPCClient \<Rightarrow> bool" where
  "Sick r = sick r"

definition markSick :: "RPCClient \<Rightarrow> RPCClient" where
  "markSick r =
     (let r1 = (if \<not> sick r then r\<lparr>FailsCount := FailsCount r + 1\<rparr> else r);
          r2 = r1\<lparr>sickRate := sickRate r1 + 1\<rparr>;
          r3 = r2\<lparr>successRate := 0\<rparr>
      in if 5 \<le>s sickRate r3 then r3\<lparr>sick := True\<rparr> else r3)"

definition markAlive :: "RPCClient \<Rightarrow> RPCClient" where
  "markAlive r =
     (let r1 = r\<lparr>successRate := successRate r + 1\<rparr>
      in if 5 \<le>s successRate r1
         then r1\<lparr>sick := False, sickRate := 0, successRate := 0\<rparr>
         else r1)"

text \<open>A sequence of health reports, applied from left to right.\<close>

datatype report = Failure | Success

fun report_step :: "RPCClient \<Rightarrow> report \<Rightarrow> RPCClient" where
  "report_step r Failure = markSick r"
| "report_step r Success = markAlive r"

definition run_reports :: "RPCClient \<Rightarrow> report list \<Rightarrow> RPCClient" where
  "run_reports r es = foldl report_step r es"

section \<open>rpc.go: the JSON-RPC transport\<close>

text \<open>
  The values \<open>encoding/json\<close> stores into an \<open>interface{}\<close>: nil, bool, float64
  (kept as its JSON literal, no code here computes with it), string, slice and map.
\<close>

datatype iface =
    INil
  | IBool bool
  | IFloat64 string
  | IString string
  | ISlice "iface list"
  | IMap "(string \<times> iface) list"

text \<open>
  \<open>JSONRpcResp\<close>: the two raw messages are pointers (\<open>None\<close> is nil), and the
  error map is nil (\<open>None\<close>) when the envelope has no error object.
\<close>

record JSONRpcResp =
  Id' :: "string option"
  Result :: "string option"
  Error :: "(string \<rightharpoonup> iface) option"

text \<open>
  What the HTTP exchange of \<open>doPost\<close> yields, as the code sees it: \<open>client.Do\<close>
  returned an error; or a response arrived and decoding its body returned an error; or
  the body decoded, into a pointer that is nil when the body is the JSON value null.
  The request itself is not modelled: \<open>url\<close>, \<open>method\<close> and \<open>params\<close> only
  shape what is sent, and \<open>http.NewRequest\<close>, given the text of a URL that parsed
  when the client was built, is taken to return a request.
\<close>

datatype transport =
    DoError string
  | DecodeError string
  | Decoded "JSONRpcResp option"

text \<open>
  \<open>doPost\<close> returns the pair (response, error), an error being its text, together
  with the client record after the call. The unchecked assertion
  \<open>rpcResp.Error["message"].(string)\<close> panics unless the map holds a string under
  that key; \<open>markSick\<close> has run by then.
\<close>

definition doPost ::
  "RPCClient \<Rightarrow> transport \<Rightarrow> (JSONRpcResp option \<times> string option) outcome \<times> RPCClient" where
  "doPost r t =
     (case t of
        DoError err \<Rightarrow> (Return (None, Some err), markSick r)
      | DecodeError err \<Rightarrow> (Return (None, Some err), markSick r)
      | Decoded None \<Rightarrow> (Panic NilDereference, r)
      | Decoded (Some rpcResp) \<Rightarrow>
          (case Error rpcResp of
             Some m \<Rightarrow>
               (case m ''message'' of
                  Some (IString msg) \<Rightarrow> (Return (None, Some msg), markSick r)
                | _ \<Rightarrow> (Panic TypeAssertion, markSick r))
           | None \<Rightarrow> (Return (Some rpcResp, None), r)))"

record GetBlockTemplateReply =
  Difficulty :: int64
  Height :: int64
  Blob :: string
  ReservedOffset :: int
  PrevHash :: string
  SeedHash :: string
  NextSeedHash :: string

record GetInfoReply =
  IncomingConnections :: int64
  OutgoingConnections :: int64
  InfoHeight :: int64
  TxPoolSize :: int64
  Status :: string

record GetBlockHashReply =
  Hash :: string

text \<open>
  \<open>json.Unmarshal(*rpcResp.Result, &reply)\<close> belongs to the Go library: it is the
  parameter \<open>unmarshal\<close>, from the raw result to the reply pointer after the call
  (nil for the JSON value null) and the error it returned.
\<close>

definition GetBlockTemplate ::
  "(string \<Rightarrow> GetBlockTemplateReply option \<times> string option) \<Rightarrow> RPCClient \<Rightarrow> transport \<Rightarrow>
     (GetBlockTemplateReply option \<times> string option) outcome \<times> RPCClient" where
  "GetBlockTemplate unmarshal r t =
     (case doPost r t of
        (Panic p, r') \<Rightarrow> (Panic p, r')
      | (Return (rpcResp, Some err), r') \<Rightarrow> (Return (None, Some err), r')
      | (Return (None, None), r') \<Rightarrow> (Panic NilDereference, r')
      | (Return (Some resp, None), r') \<Rightarrow>
          (case Result resp of
             None \<Rightarrow> (Return (None, None), r')
           | Some raw \<Rightarrow> (Return (unmarshal raw), r')))"

definition GetInfo ::
  "(string \<Rightarrow> GetInfoReply option \<times> string option) \<Rightarrow> RPCClient \<Rightarrow> transport \<Rightarrow>
     (GetInfoReply option \<times> string option) outcome \<times> RPCClient" where
  "GetInfo unmarshal r t =
     (case doPost r t of
        (Panic p, r') \<Rightarrow> (Panic p, r')
      | (Return (rpcResp, Some err), r') \<Rightarrow> (Return (None, Some err), r')
      | (Return (None, None), r') \<Rightarrow> (Panic NilDereference, r')
      | (Return (Some resp, None), r') \<Rightarrow>
          (case Result resp of
             None \<Rightarrow> (Return (None, None), r')
           | Some raw \<Rightarrow> (Return (unmarshal raw), r')))"

definition GetBlockHash ::
  "(string \<Rightarrow> GetBlockHashReply option \<times> string option) \<Rightarrow> RPCClient \<Rightarrow> transport \<Rightarrow>
     (GetBlockHashReply option \<times> string option) outcome \<times> RPCClient" where
  "GetBlockHash unmarshal r t =
     (case doPost r t of
        (Panic p, r') \<Rightarrow> (Panic p, r')
      | (Return (rpcResp, Some err), r') \<Rightarrow> (Return (None, Some err), r')
      | (Return (None, None), r') \<Rightarrow> (Panic NilDereference, r')
      | (Return (Some resp, None), r') \<Rightarrow>
          (case Result resp of
             None \<Rightarrow> (Return (None, None), r')
           | Some raw \<Rightarrow> (Return (unmarshal raw), r')))"

definition Check ::
  "(string \<Rightarrow> GetBlockTemplateReply option \<times> string option) \<Rightarrow> RPCClient \<Rightarrow> transport \<Rightarrow>
     (bool \<times> string option) outcome \<times> RPCClient" where
  "Check unmarshal r t =
     (case GetBlockTemplate unmarshal r t of
        (Panic p, r') \<Rightarrow> (Panic p, r')
      | (Return (reply, Some err), r') \<Rightarrow> (Return (False, Some err), r')
      | (Return (reply, None), r') \<Rightarrow>
          (let r'' = markAlive r' in (Return (\<not> Sick r'', None), r'')))"

section \<open>Byte slices\<close>

text \<open>
  A Go slice is a reference into a backing array, so whether a write through one slice
  shows through another is a question about the arrays. The arrays live in a store,
  addressed by their position; \<open>make\<close> allocates behind every array that exists.
\<close>

type_synonym memory = "byte list list"

record slice =
  arr :: nat
  off :: nat
  len :: nat
  cap :: nat

definition bytes_of :: "memory \<Rightarrow> slice \<Rightarrow> byte list" where
  "bytes_of m s = take (len s) (drop (off s) (m ! arr s))"

definition make_bytes :: "memory \<Rightarrow> nat \<Rightarrow> slice \<times> memory" where
  "make_bytes m n = (\<lparr>arr = length m, off = 0, len = n, cap = n\<rparr>, m @ [replicate n 0])"

text \<open>\<open>s[lo:hi]\<close> panics unless \<open>0 \<le> lo \<le> hi \<le> cap(s)\<close>.\<close>

definition reslice :: "slice \<Rightarrow> int \<Rightarrow> int \<Rightarrow> panic + slice" where
  "reslice s lo hi =
     (if 0 \<le> lo \<and> lo \<le> hi \<and> hi \<le> int (cap s)
      then Inr \<lparr>arr = arr s, off = off s + nat lo, len = nat (hi - lo), cap = cap s - nat lo\<rparr>
      else Inl SliceBounds)"

text \<open>\<open>copy(dst, src)\<close> writes the first \<open>min(len(dst), len(src))\<close> bytes of \<open>src\<close>.\<close>

definition copy_bytes :: "memory \<Rightarrow> slice \<Rightarrow> byte list \<Rightarrow> memory" where
  "copy_bytes m dst src =
     (let n = min (len dst) (length src); a = m ! arr dst
      in m[arr dst := take (off dst) a @ take n src @ drop (off dst + n) a])"

section \<open>encoding/binary and encoding/hex\<close>

text \<open>\<open>binary.Write(extraBuff, binary.BigEndian, extraNonce)\<close> on an empty buffer.\<close>

definition BigEndian_uint32 :: "uint32 \<Rightarrow> byte list" where
  "BigEndian_uint32 v = [ucast (drop_bit 24 v), ucast (drop_bit 16 v), ucast (drop_bit 8 v), ucast v]"

definition hextable :: string where
  "hextable = ''0123456789abcdef''"

definition hex_EncodeToString :: "byte list \<Rightarrow> string" where
  "hex_EncodeToString bs =
     concat (map (\<lambda>v. [hextable ! unat (drop_bit 4 v), hextable ! unat (v AND 15)]) bs)"

datatype hex_error = InvalidByteError char | ErrLength

definition fromHexChar :: "char \<Rightarrow> byte option" where
  "fromHexChar c =
     (let n = (of_char c :: nat)
      in if 48 \<le> n \<and> n \<le> 57 then Some (of_nat (n - 48))
         else if 97 \<le> n \<and> n \<le> 102 then Some (of_nat (n - 87))
         else if 65 \<le> n \<and> n \<le> 70 then Some (of_nat (n - 55))
         else None)"

text \<open>\<open>hex.Decode\<close>: the bytes decoded before the first error, and that error.\<close>

fun hex_Decode :: "string \<Rightarrow> byte list \<times> hex_error option" where
  "hex_Decode [] = ([], None)"
| "hex_Decode [p] =
     (case fromHexChar p of
        None \<Rightarrow> ([], Some (InvalidByteError p))
      | Some a \<Rightarrow> ([], Some ErrLength))"
| "hex_Decode (p # q # rest) =
     (case fromHexChar p of
        None \<Rightarrow> ([], Some (InvalidByteError p))
      | Some a \<Rightarrow>
          (case fromHexChar q of
             None \<Rightarrow> ([], Some (InvalidByteError q))
           | Some b \<Rightarrow>
               (case hex_Decode rest of (bs, err) \<Rightarrow> ((push_bit 4 a OR b) # bs, err))))"

text \<open>
  \<open>hex.DecodeString\<close> allocates \<open>len(s)/2\<close> bytes, decodes into them and returns the
  decoded prefix as a slice, also when it returns an error.
\<close>

definition hex_DecodeString :: "memory \<Rightarrow> string \<Rightarrow> (slice \<times> hex_error option) \<times> memory" where
  "hex_DecodeString m s =
     (case hex_Decode s of
        (bs, err) \<Rightarrow>
          ((\<lparr>arr = length m, off = 0, len = length bs, cap = length s div 2\<rparr>, err),
           m @ [bs @ replicate (length s div 2 - length bs) 0]))"

section \<open>blocks.go: the block template and its blobs\<close>

text \<open>
  \<open>difficulty\<close> is a \<open>*big.Int\<close>, an unbounded integer. \<open>reservedOffset\<close> is a Go
  \<open>int\<close>, 64 bits wide; the only arithmetic on it is \<open>reservedOffset+4\<close> and
  \<open>reservedOffset+7\<close> as slice bounds, written here without wrap-around: a slice has
  fewer than \<open>2^63\<close> bytes, so a sum that would wrap is above every capacity unwrapped
  and negative wrapped, and the bounds check fails either way.
\<close>

record BlockTemplate =
  diffInt64 :: int64
  height :: int64
  difficulty :: int
  reservedOffset :: int
  prevHash :: string
  buffer :: slice
  seedHash :: string
  nextSeedHash :: string

text \<open>
  Lines 25 to 31 of \<open>nextBlob\<close>: the scratch buffer that goes to \<open>ConvertBlob\<close>, or
  the panic of a slice expression out of bounds, and the store afterwards. The receiver
  is a non-nil pointer to the struct \<open>b\<close>.
\<close>

definition nextBlob_scratch ::
  "memory \<Rightarrow> BlockTemplate \<Rightarrow> uint32 \<Rightarrow> slice \<Rightarrow> (panic + slice) \<times> memory" where
  "nextBlob_scratch m b extraNonce instanceId =
     (let extraBuff = BigEndian_uint32 extraNonce
      in case make_bytes m (len (buffer b)) of
           (blobBuff, m1) \<Rightarrow>
             (let m2 = copy_bytes m1 blobBuff (bytes_of m1 (buffer b))
              in case reslice blobBuff (reservedOffset b + 4) (reservedOffset b + 7) of
                   Inl p \<Rightarrow> (Inl p, m2)
                 | Inr dst1 \<Rightarrow>
                     (let m3 = copy_bytes m2 dst1 (bytes_of m2 instanceId)
                      in case reslice blobBuff (reservedOffset b) (int (len blobBuff)) of
                           Inl p \<Rightarrow> (Inl p, m3)
                         | Inr dst2 \<Rightarrow> (Inr blobBuff, copy_bytes m3 dst2 extraBuff))))"

text \<open>
  Modelled from the spec: \<open>cnutil.ConvertBlob\<close> is not among the sources; the spec has
  it as a supplied pure function from bytes to bytes. It is the parameter \<open>ConvertBlob\<close>.

  \<open>nextBlob\<close> returns its result, the struct behind the receiver after the call and
  the store after the call. No statement of the function assigns a field of the
  receiver, so the struct comes back as it was passed.
\<close>

definition nextBlob ::
  "(byte list \<Rightarrow> byte list) \<Rightarrow> memory \<Rightarrow> BlockTemplate \<Rightarrow> uint32 \<Rightarrow> slice \<Rightarrow>
     string outcome \<times> BlockTemplate \<times> memory" where
  "nextBlob ConvertBlob m b extraNonce instanceId =
     (case nextBlob_scratch m b extraNonce instanceId of
        (Inl p, m') \<Rightarrow> (Panic p, b, m')
      | (Inr blobBuff, m') \<Rightarrow>
          (Return (hex_EncodeToString (ConvertBlob (bytes_of m' blobBuff))), b, m'))"

section \<open>blocks.go: refreshing the template\<close>

text \<open>
  Modelled from the spec: the type \<open>StratumServer\<close> and its methods \<open>rpc\<close> and
  \<open>currentBlockTemplate\<close> are not among the sources. The spec has one endpoint per
  refresh and a store that holds the current template or none: \<open>rpc\<close> reads the
  field \<open>upstream\<close>, \<open>currentBlockTemplate\<close> the field \<open>blockTemplate\<close>, whose
  \<open>Store\<close> replaces the whole value. \<open>config_Address\<close> is \<open>s.config.Address\<close>.
\<close>

record StratumServer =
  config_Address :: string
  upstream :: RPCClient
  blockTemplate :: "BlockTemplate option"

definition rpc :: "StratumServer \<Rightarrow> RPCClient" where
  "rpc s = upstream s"

definition currentBlockTemplate :: "StratumServer \<Rightarrow> BlockTemplate option" where
  "currentBlockTemplate s = blockTemplate s"

text \<open>Lines 55 to 64: the new template built from the reply; the error of the hex decoder is dropped.\<close>

definition newTemplate :: "memory \<Rightarrow> GetBlockTemplateReply \<Rightarrow> BlockTemplate \<times> memory" where
  "newTemplate m reply =
     (case hex_DecodeString m (Blob reply) of
        ((buf, err), m') \<Rightarrow>
          (\<lparr>diffInt64 = Difficulty reply,
            height = Height reply,
            difficulty = sint (Difficulty reply),
            reservedOffset = ReservedOffset reply,
            prevHash = PrevHash reply,
            buffer = buf,
            seedHash = SeedHash reply,
            nextSeedHash = NextSeedHash reply\<rparr>, m'))"

text \<open>Lines 55 to 66: build the template, store it, return true.\<close>

definition publish ::
  "memory \<Rightarrow> StratumServer \<Rightarrow> GetBlockTemplateReply \<Rightarrow> bool outcome \<times> StratumServer \<times> memory" where
  "publish m s reply =
     (case newTemplate m reply of
        (t, m') \<Rightarrow> (Return True, s\<lparr>blockTemplate := Some t\<rparr>, m'))"

text \<open>
  \<open>fetchBlockTemplate\<close>. The calls to \<open>log.Printf\<close> only evaluate their arguments:
  on each path the first of them, or the comparison of line 45, reads a field of
  \<open>reply\<close>, which panics when \<open>reply\<close> is nil.
\<close>

definition fetchBlockTemplate ::
  "(string \<Rightarrow> GetBlockTemplateReply option \<times> string option) \<Rightarrow> memory \<Rightarrow> StratumServer \<Rightarrow>
     transport \<Rightarrow> bool outcome \<times> StratumServer \<times> memory" where
  "fetchBlockTemplate unmarshal m s tr =
     (case GetBlockTemplate unmarshal (rpc s) tr of
        (Panic p, r') \<Rightarrow> (Panic p, s\<lparr>upstream := r'\<rparr>, m)
      | (Return (reply, Some err), r') \<Rightarrow> (Return False, s\<lparr>upstream := r'\<rparr>, m)
      | (Return (reply, None), r') \<Rightarrow>
          (let s1 = s\<lparr>upstream := r'\<rparr>
           in case currentBlockTemplate s1 of
                Some t \<Rightarrow>
                  (case reply of
                     None \<Rightarrow> (Panic NilDereference, s1, m)
                   | Some rep \<Rightarrow>
                       if prevHash t = PrevHash rep
                       then (if length (PrevHash rep) = 0 \<and> height t <s Height rep
                             then publish m s1 rep
                             else (Return False, s1, m))
                       else publish m s1 rep)
              | None \<Rightarrow>
                  (case reply of
                     None \<Rightarrow> (Panic NilDereference, s1, m)
                   | Some rep \<Rightarrow> publish m s1 rep)))"

section \<open>Notions the properties are stated with\<close>

text \<open>The number of successes that end a sequence of reports.\<close>

definition trailing_successes :: "report list \<Rightarrow> nat" where
  "trailing_successes es = length (takeWhile (\<lambda>e. e = Success) (rev es))"

text \<open>The number of failures of a sequence that are reported while the client is not sick.\<close>

fun failures_while_not_sick :: "RPCClient \<Rightarrow> report list \<Rightarrow> nat" where
  "failures_while_not_sick r [] = 0"
| "failures_while_not_sick r (e # es) =
     (if e = Failure \<and> \<not> sick r then 1 else 0) + failures_while_not_sick (report_step r e) es"

text \<open>A slice that lies within an array of the store.\<close>

definition slice_ok :: "memory \<Rightarrow> slice \<Rightarrow> bool" where
  "slice_ok m s \<longleftrightarrow> arr s < length m \<and> off s + len s \<le> length (m ! arr s)"

text \<open>The bytes \<open>nextBlob\<close> passes to \<open>ConvertBlob\<close>, if it gets that far.\<close>

definition scratch_bytes :: "memory \<Rightarrow> BlockTemplate \<Rightarrow> uint32 \<Rightarrow> slice \<Rightarrow> byte list option" where
  "scratch_bytes m b extraNonce instanceId =
     (case nextBlob_scratch m b extraNonce instanceId of
        (Inl p, m') \<Rightarrow> None
      | (Inr blobBuff, m') \<Rightarrow> Some (bytes_of m' blobBuff))"

text \<open>A \<open>json.Unmarshal\<close> with one outcome for every raw text.\<close>

definition unmarshal_to :: "'r option \<times> string option \<Rightarrow> string \<Rightarrow> 'r option \<times> string option" where
  "unmarshal_to out raw = out"

text \<open>
  A sample store: a ten-byte template buffer and a three-byte instance id, with a
  template whose reserved offset is 2.
\<close>

definition example_memory :: memory where
  "example_memory = [[1, 2, 3, 4, 5, 6, 7, 8, 9, 10], [0xAA, 0xBB, 0xCC]]"

definition example_template :: BlockTemplate where
  "example_template =
     \<lparr>diffInt64 = 1000, height = 100, difficulty = 1000, reservedOffset = 2, prevHash = ''abc'',
      buffer = \<lparr>arr = 0, off = 0, len = 10, cap = 10\<rparr>, seedHash = [], nextSeedHash = []\<rparr>"

definition example_instanceId :: slice where
  "example_instanceId = \<lparr>arr = 1, off = 0, len = 3, cap = 3\<rparr>"

text \<open>
  A sample refresh: a server with no template yet, a well-formed envelope, and a reply
  whose blob is ten bytes of valid hex with reserved offset 2.
\<close>

definition example_server :: StratumServer where
  "example_server =
     \<lparr>config_Address = ''wallet'', upstream = NewRPCClient ''daemon'', blockTemplate = None\<rparr>"

definition example_envelope :: transport where
  "example_envelope = Decoded (Some \<lparr>Id' = Some ''0'', Result = Some ''{}'', Error = None\<rparr>)"

definition example_reply :: GetBlockTemplateReply where
  "example_reply =
     \<lparr>Difficulty = 1000, Height = 101, Blob = ''0102030405060708090a'', ReservedOffset = 2,
      PrevHash = ''xyz'', SeedHash = ''s'', NextSeedHash = ''n''\<rparr>"

section \<open>The health monitor\<close>

lemma markAlive_fields:
  "successRate (markAlive r) = (if 5 \<le>s successRate r + 1 then 0 else successRate r + 1)"
  "sickRate (markAlive r) = (if 5 \<le>s successRate r + 1 then 0 else sickRate r)"
  "sick (markAlive r) = (if 5 \<le>s successRate r + 1 then False else sick r)"
  "FailsCount (markAlive r) = FailsCount r"
  by (simp_all add: markAlive_def Let_def)

lemma markSick_fields:
  "successRate (markSick r) = 0"
  "sickRate (markSick r) = sickRate r + 1"
  "sick (markSick r) = (if 5 \<le>s sickRate r + 1 then True else sick r)"
  "FailsCount (markSick r) = (if sick r then FailsCount r else FailsCount r + 1)"
  by (simp_all add: markSick_def Let_def)

lemma run_reports_Nil: "run_reports r [] = r"
  by (simp add: run_reports_def)

lemma run_reports_Cons: "run_reports r (e # es) = run_reports (report_step r e) es"
  by (simp add: run_reports_def)

lemma run_reports_snoc: "run_reports r (es @ [e]) = report_step (run_reports r es) e"
  by (simp add: run_reports_def)

lemma five_failures_sick:
  "Sick ((markSick ^^ 5) (NewRPCClient n)) \<and> successRate ((markSick ^^ 5) (NewRPCClient n)) = 0"
  by (simp add: eval_nat_numeral Sick_def markSick_fields NewRPCClient_def word_sle_eq)

lemma four_successes_still_sick:
  assumes "sick r" and "successRate r = 0"
  shows "Sick ((markAlive ^^ 4) r)"
  using assms by (simp add: eval_nat_numeral Sick_def markAlive_fields word_sle_eq)

lemma fifth_success_clears:
  assumes "sick r" and "successRate r = 0"
  shows "\<not> Sick ((markAlive ^^ 5) r) \<and> sickRate ((markAlive ^^ 5) r) = 0 \<and>
         successRate ((markAlive ^^ 5) r) = 0"
  using assms by (simp add: eval_nat_numeral Sick_def markAlive_fields word_sle_eq)

text \<open>
  Claim C3, as stated, lets the four successes start from any sick state. A sick client
  that has already seen three successes in a row (five failures, then three successes)
  is cleared by the second of four more: the success streak is kept across calls.
\<close>

theorem sick_state_with_streak_counterexample:
  "sick ((markAlive ^^ 3) ((markSick ^^ 5) (NewRPCClient ''daemon''))) \<and>
   \<not> Sick ((markAlive ^^ 4) ((markAlive ^^ 3) ((markSick ^^ 5) (NewRPCClient ''daemon''))))"
  by (simp add: eval_nat_numeral Sick_def markAlive_fields markSick_fields NewRPCClient_def
      word_sle_eq)

text \<open>
  Claim C3, amended: five \<open>markSick\<close> calls on a new client make \<open>Sick\<close> true and
  leave the success streak at 0; from any sick state whose success streak is 0, four
  \<open>markAlive\<close> calls leave \<open>Sick\<close> true and the fifth makes it false, with
  \<open>sickRate\<close> and \<open>successRate\<close> back at 0.
\<close>

theorem five_failures_then_five_successes:
  "Sick ((markSick ^^ 5) (NewRPCClient n)) \<and>
   successRate ((markSick ^^ 5) (NewRPCClient n)) = 0 \<and>
   (sick r \<and> successRate r = 0 \<longrightarrow>
      Sick ((markAlive ^^ 4) r) \<and> \<not> Sick ((markAlive ^^ 5) r) \<and>
      sickRate ((markAlive ^^ 5) r) = 0 \<and> successRate ((markAlive ^^ 5) r) = 0)"
  using five_failures_sick four_successes_still_sick fifth_success_clears by blast

theorem five_failures_then_five_successes_witness:
  "sick ((markSick ^^ 5) (NewRPCClient ''daemon'')) \<and>
   successRate ((markSick ^^ 5) (NewRPCClient ''daemon'')) = 0 \<and>
   Sick ((markAlive ^^ 4) ((markSick ^^ 5) (NewRPCClient ''daemon''))) \<and>
   \<not> Sick ((markAlive ^^ 5) ((markSick ^^ 5) (NewRPCClient ''daemon'')))"
  using five_failures_then_five_successes [of "''daemon''" "(markSick ^^ 5) (NewRPCClient ''daemon'')"]
  by (simp add: Sick_def)

lemma success_streak_bounded:
  "successRate (run_reports (NewRPCClient n) es) \<in> {0, 1, 2, 3, 4} \<and>
   unat (successRate (run_reports (NewRPCClient n) es)) \<le> trailing_successes es"
proof (induction es rule: rev_induct)
  case Nil
  show ?case by (simp add: run_reports_Nil NewRPCClient_def)
next
  case (snoc e es)
  let ?c = "successRate (run_reports (NewRPCClient n) es)"
  show ?case
  proof (cases e)
    case Failure
    then show ?thesis by (simp add: run_reports_snoc markSick_fields)
  next
    case Success
    from snoc have "?c \<in> {0, 1, 2, 3, 4}" by simp
    then consider "?c = 0" | "?c = 1" | "?c = 2" | "?c = 3" | "?c = 4" by auto
    then show ?thesis using snoc Success
      by cases (simp_all add: run_reports_snoc markAlive_fields word_sle_eq trailing_successes_def)
  qed
qed

lemma reset_ends_a_run:
  assumes "5 \<le>s successRate (run_reports (NewRPCClient n) es) + 1"
  shows "4 \<le> trailing_successes es"
proof -
  let ?c = "successRate (run_reports (NewRPCClient n) es)"
  have "?c \<in> {0, 1, 2, 3, 4}" using success_streak_bounded by blast
  then consider "?c = 0" | "?c = 1" | "?c = 2" | "?c = 3" | "?c = 4" by auto
  then have "?c = 4" using assms by cases (simp_all add: word_sle_eq)
  moreover have "unat ?c \<le> trailing_successes es" using success_streak_bounded by blast
  ultimately show ?thesis by simp
qed

lemma sless_not_sle: "a <s b \<Longrightarrow> \<not> b \<le>s a" for a b :: int64
  unfolding word_sle_eq word_sless_alt by linarith

lemma markAlive_below_threshold:
  "successRate r + 1 <s 5 \<Longrightarrow> sickRate (markAlive r) = sickRate r"
  using sless_not_sle [of "successRate r + 1" 5] by (simp only: markAlive_fields if_False)

lemma markAlive_changes_sickRate:
  "sickRate (markAlive r) \<noteq> sickRate r \<Longrightarrow> 5 \<le>s successRate r + 1"
  by (cases "5 \<le>s successRate r + 1") (simp_all only: markAlive_fields if_True if_False simp_thms)

text \<open>
  Claim C4: \<open>markSick\<close> always sets the success streak to 0 and adds 1 to the failure
  streak. \<open>markAlive\<close> leaves the failure streak as it is while the incremented success
  streak is below 5, and sets it to 0 when the success streak reaches 5; it changes it
  in no other case. In a run from a new client the success streak reaches 5 only at a
  success that follows at least four successes with no failure between them.
\<close>

theorem asymmetric_hysteresis:
  "successRate (markSick r) = 0 \<and>
   sickRate (markSick r) = sickRate r + 1 \<and>
   (successRate r + 1 <s 5 \<longrightarrow> sickRate (markAlive r) = sickRate r) \<and>
   (5 \<le>s successRate r + 1 \<longrightarrow> sickRate (markAlive r) = 0) \<and>
   (sickRate (markAlive r) \<noteq> sickRate r \<longrightarrow> 5 \<le>s successRate r + 1) \<and>
   (5 \<le>s successRate (run_reports (NewRPCClient n) es) + 1 \<longrightarrow> 4 \<le> trailing_successes es)"
proof (intro conjI impI)
  show "successRate (markSick r) = 0" by (rule markSick_fields(1))
  show "sickRate (markSick r) = sickRate r + 1" by (rule markSick_fields(2))
  show "sickRate (markAlive r) = sickRate r" if "successRate r + 1 <s 5"
    using that by (rule markAlive_below_threshold)
  show "sickRate (markAlive r) = 0" if "5 \<le>s successRate r + 1"
    using that by (simp only: markAlive_fields if_True)
  show "5 \<le>s successRate r + 1" if "sickRate (markAlive r) \<noteq> sickRate r"
    using that by (rule markAlive_changes_sickRate)
  show "4 \<le> trailing_successes es" if "5 \<le>s successRate (run_reports (NewRPCClient n) es) + 1"
    using that by (rule reset_ends_a_run)
qed

theorem asymmetric_hysteresis_witness:
  "successRate (markSick (NewRPCClient ''d'')) + 1 <s 5 \<and>
   sickRate (markAlive (markSick (NewRPCClient ''d''))) = sickRate (markSick (NewRPCClient ''d'')) \<and>
   5 \<le>s successRate (run_reports (NewRPCClient ''d'') [Failure, Success, Success, Success, Success]) + 1 \<and>
   sickRate (markAlive (run_reports (NewRPCClient ''d'') [Failure, Success, Success, Success, Success])) = 0 \<and>
   sickRate (markAlive (run_reports (NewRPCClient ''d'') [Failure, Success, Success, Success, Success]))
     \<noteq> sickRate (run_reports (NewRPCClient ''d'') [Failure, Success, Success, Success, Success]) \<and>
   4 \<le> trailing_successes [Failure, Success, Success, Success, Success]"
proof -
  let ?q = "markSick (NewRPCClient ''d'')"
  let ?es = "[Failure, Success, Success, Success, Success]"
  let ?r = "run_reports (NewRPCClient ''d'') ?es"
  have a: "successRate ?q + 1 <s 5"
    by (simp add: markSick_fields word_sless_alt)
  have b: "5 \<le>s successRate ?r + 1"
    by (simp add: run_reports_def markSick_fields markAlive_fields NewRPCClient_def word_sle_eq)
  have c: "sickRate ?r = 1"
    by (simp add: run_reports_def markSick_fields markAlive_fields NewRPCClient_def word_sle_eq)
  from asymmetric_hysteresis [of ?q] a
  have 1: "sickRate (markAlive ?q) = sickRate ?q" by blast
  from asymmetric_hysteresis [of ?r "''d''" ?es] b
  have 2: "sickRate (markAlive ?r) = 0" and 3: "4 \<le> trailing_successes ?es" by blast+
  have 4: "sickRate (markAlive ?r) \<noteq> sickRate ?r" unfolding 2 c by simp
  show ?thesis using a b 1 2 3 4 by (intro conjI)
qed

lemma FailsCount_run:
  "FailsCount (run_reports r es) = FailsCount r + of_nat (failures_while_not_sick r es)"
proof (induction es arbitrary: r)
  case Nil
  show ?case by (simp add: run_reports_Nil)
next
  case (Cons e es)
  show ?case
    by (cases e) (simp_all add: run_reports_Cons Cons.IH markSick_fields markAlive_fields)
qed

lemma failures_while_not_sick_le: "failures_while_not_sick r es \<le> length es"
  by (induction es arbitrary: r) (auto simp: le_SucI)

lemma sint_of_nat_small: "k < 2 ^ 63 \<Longrightarrow> sint (of_nat k :: int64) = int k"
  by (simp add: signed_of_nat signed_take_bit_int_eq_self)

lemma FailsCount_exact:
  assumes "length es < 2 ^ 63"
  shows "sint (FailsCount (run_reports (NewRPCClient n) es)) =
         int (failures_while_not_sick (NewRPCClient n) es)"
proof -
  have "failures_while_not_sick (NewRPCClient n) es < 2 ^ 63"
    using assms failures_while_not_sick_le [of "NewRPCClient n" es] by simp
  moreover have "FailsCount (NewRPCClient n) = 0" by (simp add: NewRPCClient_def)
  ultimately show ?thesis by (simp add: FailsCount_run sint_of_nat_small)
qed

text \<open>
  Claim C8: \<open>markSick\<close> adds 1 to \<open>FailsCount\<close> exactly when \<open>sick\<close> is false at the
  call and leaves it unchanged when the client is already sick; \<open>markAlive\<close> never
  changes it. So after any sequence of reports \<open>FailsCount\<close> has grown by the number of
  failures reported while not sick (in \<open>int64\<close> arithmetic), and on a new client it is
  that number as long as fewer than \<open>2^63\<close> reports were made.
\<close>

theorem FailsCount_counts_transitions:
  "(FailsCount (markSick r) = FailsCount r + 1 \<longleftrightarrow> \<not> sick r) \<and>
   (sick r \<longrightarrow> FailsCount (markSick r) = FailsCount r) \<and>
   FailsCount (markAlive r) = FailsCount r \<and>
   FailsCount (run_reports r es) = FailsCount r + of_nat (failures_while_not_sick r es) \<and>
   (length es < 2 ^ 63 \<longrightarrow>
      sint (FailsCount (run_reports (NewRPCClient n) es)) =
      int (failures_while_not_sick (NewRPCClient n) es))"
  using FailsCount_run [of r es] FailsCount_exact [of es n]
  by (simp add: markSick_fields markAlive_fields)

theorem FailsCount_counts_transitions_witness:
  "sick ((markSick ^^ 5) (NewRPCClient ''d'')) \<and>
   FailsCount (markSick ((markSick ^^ 5) (NewRPCClient ''d''))) = FailsCount ((markSick ^^ 5) (NewRPCClient ''d'')) \<and>
   length [Failure, Success, Failure] < 2 ^ 63 \<and>
   sint (FailsCount (run_reports (NewRPCClient ''d'') [Failure, Success, Failure])) = 2"
proof -
  let ?r = "(markSick ^^ 5) (NewRPCClient ''d'')"
  let ?es = "[Failure, Success, Failure]"
  have a: "sick ?r"
    by (simp add: eval_nat_numeral markSick_fields NewRPCClient_def word_sle_eq)
  have l: "length ?es < 2 ^ 63" by simp
  have c: "failures_while_not_sick (NewRPCClient ''d'') ?es = 2"
    by (simp add: markSick_fields markAlive_fields NewRPCClient_def word_sle_eq)
  from FailsCount_counts_transitions [of ?r] a
  have 1: "FailsCount (markSick ?r) = FailsCount ?r" by blast
  from FailsCount_counts_transitions [of "NewRPCClient ''d''" ?es "''d''"] l
  have "sint (FailsCount (run_reports (NewRPCClient ''d'') ?es)) =
        int (failures_while_not_sick (NewRPCClient ''d'') ?es)" by blast
  then have 2: "sint (FailsCount (run_reports (NewRPCClient ''d'') ?es)) = 2" unfolding c by simp
  show ?thesis using a l 1 2 by (intro conjI)
qed

section \<open>The blob mutator\<close>

lemma copy_bytes_last:
  "arr d = length m \<Longrightarrow>
   copy_bytes (m @ [a]) d src =
     m @ [take (off d) a @ take (min (len d) (length src)) src @
          drop (off d + min (len d) (length src)) a]"
  by (simp add: copy_bytes_def Let_def)

lemma bytes_of_old: "arr s < length m \<Longrightarrow> bytes_of (m @ ms) s = bytes_of m s"
  by (simp add: bytes_of_def nth_append)

lemma length_bytes_of: "slice_ok m s \<Longrightarrow> length (bytes_of m s) = len s"
  by (auto simp: slice_ok_def bytes_of_def)

lemma reslice_arr: "reslice s lo hi = Inr d \<Longrightarrow> arr d = arr s"
  by (auto simp: reslice_def split: if_splits)

lemma overwrite_extraNonce:
  assumes "length buf = n" "length I = 3" "k + 7 \<le> n" "length E = 4"
  shows "take k (take (k + 4) buf @ I @ drop (k + 7) buf) @ E @
           drop (k + 4) (take (k + 4) buf @ I @ drop (k + 7) buf) =
         take k buf @ E @ I @ drop (k + 7) buf"
  using assms by (simp add: min_def)

lemma nextBlob_scratch_value:
  assumes b: "slice_ok m (buffer b)" and i: "slice_ok m instanceId" and i3: "len instanceId = 3"
    and ro: "0 \<le> reservedOffset b" "reservedOffset b + 7 \<le> int (len (buffer b))"
  shows "nextBlob_scratch m b extraNonce instanceId =
    (Inr \<lparr>arr = length m, off = 0, len = len (buffer b), cap = len (buffer b)\<rparr>,
     m @ [take (nat (reservedOffset b)) (bytes_of m (buffer b)) @ BigEndian_uint32 extraNonce @
          bytes_of m instanceId @ drop (nat (reservedOffset b) + 7) (bytes_of m (buffer b))])"
proof -
  obtain k where k: "reservedOffset b = int k" using ro(1) nonneg_int_cases by blast
  let ?buf = "bytes_of m (buffer b)"
  let ?I = "bytes_of m instanceId"
  let ?n = "len (buffer b)"
  let ?E = "BigEndian_uint32 extraNonce"
  let ?bb = "\<lparr>arr = length m, off = 0, len = ?n, cap = ?n\<rparr>"
  have lb: "length ?buf = ?n" using b by (rule length_bytes_of)
  have li: "length ?I = 3" using i i3 by (simp add: length_bytes_of)
  have k7: "k + 7 \<le> ?n" using ro(2) k by simp
  have ab: "arr (buffer b) < length m" and ai: "arr instanceId < length m"
    using b i by (simp_all add: slice_ok_def)
  have le: "length ?E = 4" by (simp add: BigEndian_uint32_def)
  have mk: "make_bytes m ?n = (?bb, m @ [replicate ?n 0])" by (simp add: make_bytes_def)
  have r1: "bytes_of (m @ [replicate ?n 0]) (buffer b) = ?buf" using ab by (rule bytes_of_old)
  have m2: "copy_bytes (m @ [replicate ?n 0]) ?bb ?buf = m @ [?buf]"
    using lb by (simp add: copy_bytes_last)
  have s1: "reslice ?bb (int k + 4) (int k + 7) =
      Inr \<lparr>arr = length m, off = k + 4, len = 3, cap = ?n - (k + 4)\<rparr>"
    using k7 by (simp add: reslice_def nat_add_distrib)
  have r2: "bytes_of (m @ [?buf]) instanceId = ?I" using ai by (rule bytes_of_old)
  have m3: "copy_bytes (m @ [?buf]) \<lparr>arr = length m, off = k + 4, len = 3, cap = ?n - (k + 4)\<rparr> ?I
     = m @ [take (k + 4) ?buf @ ?I @ drop (k + 7) ?buf]"
    using li by (simp add: copy_bytes_last add.assoc)
  have s2: "reslice ?bb (int k) (int ?n) = Inr \<lparr>arr = length m, off = k, len = ?n - k, cap = ?n - k\<rparr>"
    using k7 by (simp add: reslice_def nat_diff_distrib')
  have m4: "copy_bytes (m @ [take (k + 4) ?buf @ ?I @ drop (k + 7) ?buf])
       \<lparr>arr = length m, off = k, len = ?n - k, cap = ?n - k\<rparr> ?E
     = m @ [take k ?buf @ ?E @ ?I @ drop (k + 7) ?buf]"
  proof -
    have mn: "min (?n - k) (length ?E) = 4" using k7 le by simp
    show ?thesis
      unfolding copy_bytes_last[of "\<lparr>arr = length m, off = k, len = ?n - k, cap = ?n - k\<rparr>" m, simplified] mn
      using overwrite_extraNonce[OF lb li k7 le] le by simp
  qed
  show ?thesis
    unfolding nextBlob_scratch_def Let_def k mk
    by (simp add: r1 m2 s1 r2 m3 s2 m4)
qed

lemma BigEndian_uint32_bits:
  assumes "BigEndian_uint32 x = BigEndian_uint32 y" and "n < 32"
  shows "bit x n = bit y n"
proof -
  have e: "(ucast (drop_bit 24 x) :: byte) = ucast (drop_bit 24 y)"
    "(ucast (drop_bit 16 x) :: byte) = ucast (drop_bit 16 y)"
    "(ucast (drop_bit 8 x) :: byte) = ucast (drop_bit 8 y)"
    "(ucast x :: byte) = ucast y"
    using assms(1) by (simp_all add: BigEndian_uint32_def)
  have d: "bit x (j + i) = bit y (j + i)"
    if "(ucast (drop_bit j x) :: byte) = ucast (drop_bit j y)" "i < 8" for i j
  proof -
    have "bit (ucast (drop_bit j x) :: byte) i = bit (ucast (drop_bit j y) :: byte) i"
      using that(1) by simp
    then show ?thesis using that(2) by (simp add: bit_ucast_iff bit_drop_bit_eq)
  qed
  consider "n < 8" | "8 \<le> n" "n < 16" | "16 \<le> n" "n < 24" | "24 \<le> n" "n < 32"
    using assms(2) by linarith
  then show ?thesis
  proof cases
    case 1
    then show ?thesis using d[of 0 n] e(4) by simp
  next
    case 2
    have "bit x (8 + (n - 8)) = bit y (8 + (n - 8))" using 2 by (intro d e(3)) simp
    moreover have "8 + (n - 8) = n" using 2 by simp
    ultimately show ?thesis by simp
  next
    case 3
    have "bit x (16 + (n - 16)) = bit y (16 + (n - 16))" using 3 by (intro d e(2)) simp
    moreover have "16 + (n - 16) = n" using 3 by simp
    ultimately show ?thesis by simp
  next
    case 4
    have "bit x (24 + (n - 24)) = bit y (24 + (n - 24))" using 4 by (intro d e(1)) simp
    moreover have "24 + (n - 24) = n" using 4 by simp
    ultimately show ?thesis by simp
  qed
qed

lemma BigEndian_uint32_inj: "BigEndian_uint32 x = BigEndian_uint32 y \<Longrightarrow> x = y"
proof (rule bit_word_eqI)
  fix n assume "BigEndian_uint32 x = BigEndian_uint32 y" "n < LENGTH(32)"
  then show "bit x n = bit y n" using BigEndian_uint32_bits[of x y n] by simp
qed

lemma mutated_layout:
  fixes src E I :: "byte list"
  assumes ls: "length src = n" and lI: "length I = 3" and k7: "k + 7 \<le> n" and lE: "length E = 4"
  defines "out \<equiv> take k src @ E @ I @ drop (k + 7) src"
  shows "length out = n"
    and "\<And>i. i < n \<Longrightarrow> i < k \<or> k + 7 \<le> i \<Longrightarrow> out ! i = src ! i"
    and "take 4 (drop k out) = E"
    and "take 3 (drop (k + 4) out) = I"
    and "take 7 (drop k out) = E @ I"
proof -
  show "length out = n" using ls lI k7 lE by (simp add: out_def)
  show "take 4 (drop k out) = E" using ls lI k7 lE by (simp add: out_def)
  show "take 3 (drop (k + 4) out) = I" using ls lI k7 lE by (simp add: out_def)
  show "take 7 (drop k out) = E @ I" using ls lI k7 lE by (simp add: out_def)
  show "out ! i = src ! i" if "i < n" "i < k \<or> k + 7 \<le> i" for i
  proof (cases "i < k")
    case True
    then show ?thesis using ls k7 by (simp add: out_def nth_append)
  next
    case False
    with that have g: "k + 7 \<le> i" by simp
    define P where "P = take k src @ E @ I"
    have lP: "length P = k + 7" using ls k7 lI lE by (simp add: P_def)
    have "out = P @ drop (k + 7) src" by (simp add: out_def P_def)
    then have "out ! i = drop (k + 7) src ! (i - (k + 7))"
      using g lP by (simp add: nth_append)
    also have "\<dots> = src ! i" using g ls that(1) by simp
    finally show ?thesis .
  qed
qed

lemma bytes_of_last:
  "arr s = length m \<Longrightarrow> off s = 0 \<Longrightarrow> len s = length a \<Longrightarrow> bytes_of (m @ [a]) s = a"
  by (simp add: bytes_of_def)

lemma scratch_bytes_value:
  assumes "slice_ok m (buffer b)" and "slice_ok m instanceId" and "len instanceId = 3"
    and "0 \<le> reservedOffset b" and "reservedOffset b + 7 \<le> int (len (buffer b))"
  shows "scratch_bytes m b extraNonce instanceId =
    Some (take (nat (reservedOffset b)) (bytes_of m (buffer b)) @ BigEndian_uint32 extraNonce @
          bytes_of m instanceId @ drop (nat (reservedOffset b) + 7) (bytes_of m (buffer b)))"
proof -
  let ?out = "take (nat (reservedOffset b)) (bytes_of m (buffer b)) @ BigEndian_uint32 extraNonce @
          bytes_of m instanceId @ drop (nat (reservedOffset b) + 7) (bytes_of m (buffer b))"
  let ?bb = "\<lparr>arr = length m, off = 0, len = len (buffer b), cap = len (buffer b)\<rparr>"
  have ls: "length (bytes_of m (buffer b)) = len (buffer b)" using assms(1) by (rule length_bytes_of)
  have lI: "length (bytes_of m instanceId) = 3" using assms(2,3) by (simp add: length_bytes_of)
  have k7: "nat (reservedOffset b) + 7 \<le> len (buffer b)" using assms(4,5) by linarith
  have lE: "length (BigEndian_uint32 extraNonce) = 4" by (simp add: BigEndian_uint32_def)
  have "length ?out = len (buffer b)" by (rule mutated_layout(1)[OF ls lI k7 lE])
  then have "bytes_of (m @ [?out]) ?bb = ?out" by (simp add: bytes_of_last)
  then show ?thesis
    unfolding scratch_bytes_def nextBlob_scratch_value[OF assms] by simp
qed

lemma nextBlob_by_scratch_bytes:
  "scratch_bytes m b extraNonce instanceId = Some out \<Longrightarrow>
   fst (nextBlob ConvertBlob m b extraNonce instanceId) = Return (hex_EncodeToString (ConvertBlob out))"
  by (auto simp: scratch_bytes_def nextBlob_def split: prod.splits sum.splits)

text \<open>
  Claim C6, as stated, asks only for \<open>reservedOffset + 7 \<le> len(buffer)\<close>. The offset is
  a signed \<open>int\<close>: with offset \<open>-1\<close> on a ten-byte buffer that bound holds, and
  \<open>blobBuff[b.reservedOffset:]\<close> panics, so that no scratch buffer reaches the transform.
\<close>

theorem negative_offset_counterexample:
  "slice_ok example_memory (buffer (example_template\<lparr>reservedOffset := - 1\<rparr>)) \<and>
   slice_ok example_memory example_instanceId \<and> len example_instanceId = 3 \<and>
   reservedOffset (example_template\<lparr>reservedOffset := - 1\<rparr>) + 7
     \<le> int (len (buffer (example_template\<lparr>reservedOffset := - 1\<rparr>))) \<and>
   scratch_bytes example_memory (example_template\<lparr>reservedOffset := - 1\<rparr>) 1 example_instanceId = None \<and>
   fst (nextBlob id example_memory (example_template\<lparr>reservedOffset := - 1\<rparr>) 1 example_instanceId)
     = Panic SliceBounds"
  by (simp add: example_memory_def example_template_def example_instanceId_def slice_ok_def
      scratch_bytes_def nextBlob_def nextBlob_scratch_def make_bytes_def reslice_def Let_def)

text \<open>
  Claim C6, amended with \<open>0 \<le> reservedOffset\<close>: for a template whose buffer lies in the
  store, with \<open>0 \<le> reservedOffset\<close> and \<open>reservedOffset + 7 \<le> len(buffer)\<close>, every
  \<open>extraNonce\<close> and every three-byte \<open>instanceId\<close>, \<open>nextBlob\<close> returns the hex
  encoding of \<open>ConvertBlob\<close> applied to a scratch buffer \<open>out\<close> as long as the
  template's buffer, equal to it at every index outside \<open>[reservedOffset, reservedOffset+7)\<close>,
  holding the big-endian \<open>extraNonce\<close> in the first four bytes of that range and the
  \<open>instanceId\<close> in the last three; another \<open>extraNonce\<close> gives other bytes in that range.
\<close>

theorem nextBlob_mutated_region:
  assumes "slice_ok m (buffer b)" and "slice_ok m instanceId" and "len instanceId = 3"
    and "0 \<le> reservedOffset b" and "reservedOffset b + 7 \<le> int (len (buffer b))"
  shows "\<exists>out. scratch_bytes m b extraNonce instanceId = Some out \<and>
      fst (nextBlob ConvertBlob m b extraNonce instanceId) =
        Return (hex_EncodeToString (ConvertBlob out)) \<and>
      length out = len (buffer b) \<and>
      (\<forall>i < length out. i < nat (reservedOffset b) \<or> nat (reservedOffset b) + 7 \<le> i \<longrightarrow>
         out ! i = bytes_of m (buffer b) ! i) \<and>
      take 4 (drop (nat (reservedOffset b)) out) = BigEndian_uint32 extraNonce \<and>
      take 3 (drop (nat (reservedOffset b) + 4) out) = bytes_of m instanceId \<and>
      (\<forall>extraNonce' out'. extraNonce' \<noteq> extraNonce \<and>
         scratch_bytes m b extraNonce' instanceId = Some out' \<longrightarrow>
         take 7 (drop (nat (reservedOffset b)) out') \<noteq> take 7 (drop (nat (reservedOffset b)) out))"
proof -
  let ?k = "nat (reservedOffset b)"
  let ?src = "bytes_of m (buffer b)"
  let ?I = "bytes_of m instanceId"
  let ?n = "len (buffer b)"
  let ?out = "\<lambda>e. take ?k ?src @ BigEndian_uint32 e @ ?I @ drop (?k + 7) ?src"
  have ls: "length ?src = ?n" using assms(1) by (rule length_bytes_of)
  have lI: "length ?I = 3" using assms(2,3) by (simp add: length_bytes_of)
  have k7: "?k + 7 \<le> ?n" using assms(4,5) by linarith
  have lE: "length (BigEndian_uint32 e) = 4" for e by (simp add: BigEndian_uint32_def)
  note lay = mutated_layout[OF ls lI k7 lE]
  have sb: "scratch_bytes m b e instanceId = Some (?out e)" for e
    using assms by (rule scratch_bytes_value)
  have 1: "fst (nextBlob ConvertBlob m b extraNonce instanceId) =
        Return (hex_EncodeToString (ConvertBlob (?out extraNonce)))"
    using sb by (rule nextBlob_by_scratch_bytes)
  have 2: "length (?out extraNonce) = ?n" by (rule lay(1))
  have 3: "\<forall>i < length (?out extraNonce). i < ?k \<or> ?k + 7 \<le> i \<longrightarrow> ?out extraNonce ! i = ?src ! i"
    unfolding 2 using lay(2) by blast
  have 4: "take 4 (drop ?k (?out extraNonce)) = BigEndian_uint32 extraNonce" by (rule lay(3))
  have 5: "take 3 (drop (?k + 4) (?out extraNonce)) = ?I" by (rule lay(4))
  have 6: "take 7 (drop ?k out') \<noteq> take 7 (drop ?k (?out extraNonce))"
    if "e \<noteq> extraNonce" "scratch_bytes m b e instanceId = Some out'" for e out'
  proof
    assume eq: "take 7 (drop ?k out') = take 7 (drop ?k (?out extraNonce))"
    have "out' = ?out e" using that(2) sb[of e] by simp
    then have "BigEndian_uint32 e @ ?I = BigEndian_uint32 extraNonce @ ?I"
      using eq lay(5)[of e] lay(5)[of extraNonce] by simp
    then have "BigEndian_uint32 e = BigEndian_uint32 extraNonce" by simp
    then show False using that(1) BigEndian_uint32_inj by blast
  qed
  show ?thesis
    using sb[of extraNonce] 1 2 3 4 5 6 by blast
qed

theorem nextBlob_mutated_region_witness:
  "slice_ok example_memory (buffer example_template) \<and>
   slice_ok example_memory example_instanceId \<and> len example_instanceId = 3 \<and>
   0 \<le> reservedOffset example_template \<and>
   reservedOffset example_template + 7 \<le> int (len (buffer example_template)) \<and>
   (\<exists>out. scratch_bytes example_memory example_template 0x01020304 example_instanceId = Some out \<and>
      fst (nextBlob id example_memory example_template 0x01020304 example_instanceId) =
        Return (hex_EncodeToString (id out)) \<and>
      take 4 (drop (nat (reservedOffset example_template)) out) = BigEndian_uint32 0x01020304 \<and>
      take 3 (drop (nat (reservedOffset example_template) + 4) out) =
        bytes_of example_memory example_instanceId)"
proof -
  have 1: "slice_ok example_memory (buffer example_template)"
    by (simp add: slice_ok_def example_memory_def example_template_def)
  have 2: "slice_ok example_memory example_instanceId"
    by (simp add: slice_ok_def example_memory_def example_instanceId_def)
  have 3: "len example_instanceId = 3" by (simp add: example_instanceId_def)
  have 4: "0 \<le> reservedOffset example_template" by (simp add: example_template_def)
  have 5: "reservedOffset example_template + 7 \<le> int (len (buffer example_template))"
    by (simp add: example_template_def)
  show ?thesis
    using 1 2 3 4 5 nextBlob_mutated_region [OF 1 2 3 4 5, of "0x01020304" id] by blast
qed

lemma nextBlob_scratch_extends:
  "\<exists>a. snd (nextBlob_scratch m b extraNonce instanceId) = m @ [a]"
proof -
  let ?n = "len (buffer b)"
  let ?bb = "\<lparr>arr = length m, off = 0, len = ?n, cap = ?n\<rparr>"
  let ?m1 = "m @ [replicate ?n 0]"
  obtain a2 where a2: "copy_bytes ?m1 ?bb (bytes_of ?m1 (buffer b)) = m @ [a2]"
    by (simp add: copy_bytes_last)
  show ?thesis
  proof (cases "reslice ?bb (reservedOffset b + 4) (reservedOffset b + 7)")
    case (Inl p)
    then show ?thesis by (simp add: nextBlob_scratch_def Let_def make_bytes_def a2)
  next
    case d1: (Inr d1)
    have "arr d1 = length m" using reslice_arr[OF d1] by simp
    then obtain a3 where a3: "copy_bytes (m @ [a2]) d1 (bytes_of (m @ [a2]) instanceId) = m @ [a3]"
      by (simp add: copy_bytes_last)
    show ?thesis
    proof (cases "reslice ?bb (reservedOffset b) (int ?n)")
      case (Inl p)
      then show ?thesis using d1 by (simp add: nextBlob_scratch_def Let_def make_bytes_def a2 a3)
    next
      case d2: (Inr d2)
      have "arr d2 = length m" using reslice_arr[OF d2] by simp
      then obtain a4 where a4: "copy_bytes (m @ [a3]) d2 (BigEndian_uint32 extraNonce) = m @ [a4]"
        by (simp add: copy_bytes_last)
      show ?thesis using d1 d2 by (simp add: nextBlob_scratch_def Let_def make_bytes_def a2 a3 a4)
    qed
  qed
qed

lemma nextBlob_memory:
  "snd (snd (nextBlob ConvertBlob m b extraNonce instanceId)) =
     snd (nextBlob_scratch m b extraNonce instanceId)"
  by (simp add: nextBlob_def split: prod.split sum.split)

lemma nextBlob_receiver: "fst (snd (nextBlob ConvertBlob m b extraNonce instanceId)) = b"
  by (simp add: nextBlob_def split: prod.split sum.split)

text \<open>
  Claim C7: whatever the template, the \<open>extraNonce\<close> and the \<open>instanceId\<close>, and also
  when the call panics, the struct behind the receiver is the same after \<open>nextBlob\<close> as
  before, and every array that exists before the call holds the same bytes after it: the
  writes go to the array the call allocates. So the bytes of the template's buffer are
  the same before and after.
\<close>

theorem nextBlob_keeps_template:
  "fst (snd (nextBlob ConvertBlob m b extraNonce instanceId)) = b \<and>
   take (length m) (snd (snd (nextBlob ConvertBlob m b extraNonce instanceId))) = m \<and>
   (arr (buffer b) < length m \<longrightarrow>
      bytes_of (snd (snd (nextBlob ConvertBlob m b extraNonce instanceId))) (buffer b) =
      bytes_of m (buffer b))"
proof -
  obtain a where a: "snd (snd (nextBlob ConvertBlob m b extraNonce instanceId)) = m @ [a]"
    using nextBlob_scratch_extends[of m b extraNonce instanceId] by (auto simp: nextBlob_memory)
  show ?thesis unfolding a by (simp add: bytes_of_old nextBlob_receiver)
qed

theorem nextBlob_keeps_template_witness:
  "arr (buffer example_template) < length example_memory \<and>
   bytes_of (snd (snd (nextBlob id example_memory example_template 0x01020304 example_instanceId)))
     (buffer example_template) = [1, 2, 3, 4, 5, 6, 7, 8, 9, 10]"
proof -
  have 1: "arr (buffer example_template) < length example_memory"
    by (simp add: example_template_def example_memory_def)
  have 2: "bytes_of example_memory (buffer example_template) = [1, 2, 3, 4, 5, 6, 7, 8, 9, 10]"
    by (simp add: bytes_of_def example_template_def example_memory_def)
  show ?thesis
    using 1 2 nextBlob_keeps_template [of id example_memory example_template "0x01020304" example_instanceId]
    by simp
qed

section \<open>The transport\<close>

lemma doPost_error_message:
  "doPost r (Decoded (Some \<lparr>Id' = i, Result = res, Error = Some [''message'' \<mapsto> IString X]\<rparr>)) =
     (Return (None, Some X), markSick r)"
  by (simp add: doPost_def)

lemma doPost_transport_failures:
  "doPost r (DoError e) = (Return (None, Some e), markSick r)"
  "doPost r (DecodeError e) = (Return (None, Some e), markSick r)"
  by (simp_all add: doPost_def)

lemma doPost_null_body: "doPost r (Decoded None) = (Panic NilDereference, r)"
  by (simp add: doPost_def)

text \<open>
  Claim C2 does not hold of the code: an error object with no \<open>message\<close>, or with a
  \<open>message\<close> that is not a string, makes the unchecked type assertion of \<open>doPost\<close>
  panic, after \<open>markSick\<close>; no error value reaches the caller.
\<close>

theorem doPost_error_without_message_panics:
  "doPost r (Decoded (Some \<lparr>Id' = i, Result = res, Error = Some Map.empty\<rparr>)) =
     (Panic TypeAssertion, markSick r) \<and>
   doPost r (Decoded (Some \<lparr>Id' = i, Result = res, Error = Some [''message'' \<mapsto> IFloat64 ''42'']\<rparr>)) =
     (Panic TypeAssertion, markSick r) \<and>
   doPost r (Decoded (Some \<lparr>Id' = i, Result = res, Error = Some [''message'' \<mapsto> INil]\<rparr>)) =
     (Panic TypeAssertion, markSick r)"
  by (simp add: doPost_def)

lemma doPost_no_error:
  "Error resp = None \<Longrightarrow> doPost r (Decoded (Some resp)) = (Return (Some resp, None), r)"
  by (simp add: doPost_def)

lemma GetBlockTemplate_no_error:
  "Error resp = None \<Longrightarrow>
   GetBlockTemplate unmarshal r (Decoded (Some resp)) =
     (case Result resp of
        None \<Rightarrow> (Return (None, None), r)
      | Some raw \<Rightarrow> (Return (unmarshal raw), r))"
  by (simp add: GetBlockTemplate_def doPost_no_error)

lemma GetInfo_decode_error:
  "Error resp = None \<Longrightarrow> Result resp = Some raw \<Longrightarrow> unmarshal raw = (reply, Some err) \<Longrightarrow>
   GetInfo unmarshal r (Decoded (Some resp)) = (Return (reply, Some err), r)"
  by (simp add: GetInfo_def doPost_no_error)

lemma GetBlockHash_decode_error:
  "Error resp = None \<Longrightarrow> Result resp = Some raw \<Longrightarrow> unmarshal raw = (reply, Some err) \<Longrightarrow>
   GetBlockHash unmarshal r (Decoded (Some resp)) = (Return (reply, Some err), r)"
  by (simp add: GetBlockHash_def doPost_no_error)

text \<open>
  Claim C9: when the envelope decodes and has no error object, and unmarshalling its
  result returns an error, \<open>GetBlockTemplate\<close> returns that error (with whatever reply
  the decoder left) and the client record, so \<open>sick\<close>, \<open>sickRate\<close> and
  \<open>successRate\<close>, is the one before the call; \<open>Check\<close> returns the error too, without
  calling \<open>markAlive\<close>.
\<close>

theorem decode_error_leaves_health:
  assumes "Error resp = None" and "Result resp = Some raw" and "unmarshal raw = (reply, Some err)"
  shows "GetBlockTemplate unmarshal r (Decoded (Some resp)) = (Return (reply, Some err), r) \<and>
         Check unmarshal r (Decoded (Some resp)) = (Return (False, Some err), r)"
  using assms by (simp add: Check_def GetBlockTemplate_no_error)

theorem decode_error_leaves_health_witness:
  "Error \<lparr>Id' = Some ''0'', Result = Some ''[]'', Error = None\<rparr> = None \<and>
   Result \<lparr>Id' = Some ''0'', Result = Some ''[]'', Error = None\<rparr> = Some ''[]'' \<and>
   unmarshal_to (None :: GetBlockTemplateReply option, Some ''cannot unmarshal array'') ''[]'' =
     (None, Some ''cannot unmarshal array'') \<and>
   GetBlockTemplate (unmarshal_to (None, Some ''cannot unmarshal array'')) (NewRPCClient ''daemon'')
       (Decoded (Some \<lparr>Id' = Some ''0'', Result = Some ''[]'', Error = None\<rparr>)) =
     (Return (None, Some ''cannot unmarshal array''), NewRPCClient ''daemon'')"
proof -
  let ?resp = "\<lparr>Id' = Some ''0'', Result = Some ''[]'', Error = None\<rparr>"
  let ?u = "unmarshal_to (None :: GetBlockTemplateReply option, Some ''cannot unmarshal array'')"
  have 1: "Error ?resp = None" by simp
  have 2: "Result ?resp = Some ''[]''" by simp
  have 3: "?u ''[]'' = (None, Some ''cannot unmarshal array'')" by (simp add: unmarshal_to_def)
  show ?thesis
    using 1 2 3
      decode_error_leaves_health [where resp = ?resp and raw = "''[]''" and unmarshal = ?u
        and reply = None and err = "''cannot unmarshal array''" and r = "NewRPCClient ''daemon''"]
    by simp
qed

section \<open>The template refresher\<close>

lemma same_upstream: "s\<lparr>upstream := rpc s\<rparr> = s"
  by (simp add: rpc_def)

lemma GetBlockTemplate_success_state:
  assumes "GetBlockTemplate unmarshal r tr = (Return (reply, None), r')"
  shows "r' = r"
proof (cases tr)
  case (DoError e)
  with assms show ?thesis by (simp add: GetBlockTemplate_def doPost_def)
next
  case (DecodeError e)
  with assms show ?thesis by (simp add: GetBlockTemplate_def doPost_def)
next
  case (Decoded p)
  show ?thesis
  proof (cases p)
    case None
    with assms Decoded show ?thesis by (simp add: GetBlockTemplate_def doPost_def)
  next
    case (Some resp)
    show ?thesis
    proof (cases "Error resp")
      case None
      with assms Decoded Some show ?thesis
        by (auto simp: GetBlockTemplate_no_error split: option.splits)
    next
      case (Some em)
      with assms Decoded \<open>p = Some resp\<close> show ?thesis
        by (auto simp: GetBlockTemplate_def doPost_def split: option.splits iface.splits)
    qed
  qed
qed

lemma publish_result:
  "publish m s reply =
     (Return True, s\<lparr>blockTemplate := Some (fst (newTemplate m reply))\<rparr>, snd (newTemplate m reply))"
  by (simp add: publish_def split: prod.split)

lemma fetch_on_reply:
  assumes "GetBlockTemplate unmarshal (rpc s) tr = (Return (Some reply, None), r')"
  shows "fetchBlockTemplate unmarshal m s tr =
     (case blockTemplate s of
        None \<Rightarrow> publish m s reply
      | Some t \<Rightarrow>
          if prevHash t = PrevHash reply
          then (if PrevHash reply = [] \<and> height t <s Height reply
                then publish m s reply else (Return False, s, m))
          else publish m s reply)"
proof -
  have "r' = rpc s" using assms by (rule GetBlockTemplate_success_state)
  then show ?thesis
    using assms
    by (simp add: fetchBlockTemplate_def same_upstream currentBlockTemplate_def
        split: option.split)
qed

lemma fetch_on_error:
  assumes "GetBlockTemplate unmarshal (rpc s) tr = (Return (reply, Some err), r')"
  shows "fetchBlockTemplate unmarshal m s tr = (Return False, s\<lparr>upstream := r'\<rparr>, m)"
  using assms by (simp add: fetchBlockTemplate_def)

lemma fetch_on_panic:
  assumes "GetBlockTemplate unmarshal (rpc s) tr = (Panic p, r')"
  shows "fetchBlockTemplate unmarshal m s tr = (Panic p, s\<lparr>upstream := r'\<rparr>, m)"
  using assms by (simp add: fetchBlockTemplate_def)

lemma fetch_on_nil_reply:
  assumes "GetBlockTemplate unmarshal (rpc s) tr = (Return (None, None), r')"
  shows "fetchBlockTemplate unmarshal m s tr = (Panic NilDereference, s\<lparr>upstream := r'\<rparr>, m)"
  using assms
  by (simp add: fetchBlockTemplate_def currentBlockTemplate_def Let_def split: option.split)

text \<open>
  Claim C10: for an envelope with neither a result nor an error object,
  \<open>GetBlockTemplate\<close> returns a nil reply with a nil error and leaves the client as it
  was, and \<open>fetchBlockTemplate\<close> then reads a field of the nil reply whatever the stored
  template is: it panics, with the server and the store unchanged.
\<close>

theorem nil_reply_is_dereferenced:
  "GetBlockTemplate unmarshal r (Decoded (Some \<lparr>Id' = i, Result = None, Error = None\<rparr>)) =
     (Return (None, None), r) \<and>
   fetchBlockTemplate unmarshal m s (Decoded (Some \<lparr>Id' = i, Result = None, Error = None\<rparr>)) =
     (Panic NilDereference, s, m)"
proof -
  have g: "GetBlockTemplate unmarshal r (Decoded (Some \<lparr>Id' = i, Result = None, Error = None\<rparr>)) =
     (Return (None, None), r)" for r
    by (simp add: GetBlockTemplate_no_error)
  have "fetchBlockTemplate unmarshal m s (Decoded (Some \<lparr>Id' = i, Result = None, Error = None\<rparr>)) =
     (Panic NilDereference, s\<lparr>upstream := rpc s\<rparr>, m)"
    using g [of "rpc s"] by (rule fetch_on_nil_reply)
  then show ?thesis using g [of r] by (simp add: same_upstream)
qed

text \<open>
  Claim C5: when \<open>GetBlockTemplate\<close> returns a reply and no error, \<open>fetchBlockTemplate\<close>
  publishes, that is returns true with the template built from the reply as the stored
  one, if no template is stored; if the stored \<open>prevHash\<close> equals the reply's, it
  publishes exactly when that hash is empty and the reply's height is greater than the
  stored one, and otherwise returns false with the server and the store unchanged; if the
  hashes differ, it publishes.
\<close>

theorem novelty_policy:
  assumes "GetBlockTemplate unmarshal (rpc s) tr = (Return (Some reply, None), r')"
  shows "(blockTemplate s = None \<longrightarrow>
            fetchBlockTemplate unmarshal m s tr =
              (Return True, s\<lparr>blockTemplate := Some (fst (newTemplate m reply))\<rparr>,
               snd (newTemplate m reply))) \<and>
         (\<forall>t. blockTemplate s = Some t \<and> prevHash t = PrevHash reply \<longrightarrow>
            fetchBlockTemplate unmarshal m s tr =
              (if PrevHash reply = [] \<and> height t <s Height reply
               then (Return True, s\<lparr>blockTemplate := Some (fst (newTemplate m reply))\<rparr>,
                     snd (newTemplate m reply))
               else (Return False, s, m))) \<and>
         (\<forall>t. blockTemplate s = Some t \<and> prevHash t \<noteq> PrevHash reply \<longrightarrow>
            fetchBlockTemplate unmarshal m s tr =
              (Return True, s\<lparr>blockTemplate := Some (fst (newTemplate m reply))\<rparr>,
               snd (newTemplate m reply)))"
  by (simp add: fetch_on_reply [OF assms] publish_result)

theorem novelty_policy_witness:
  "GetBlockTemplate (unmarshal_to (Some example_reply, None)) (rpc example_server) example_envelope =
     (Return (Some example_reply, None), rpc example_server) \<and>
   blockTemplate example_server = None \<and>
   fst (fetchBlockTemplate (unmarshal_to (Some example_reply, None)) [] example_server
         example_envelope) = Return True \<and>
   blockTemplate (example_server\<lparr>blockTemplate := Some example_template\<rparr>) = Some example_template \<and>
   prevHash example_template \<noteq> PrevHash example_reply \<and>
   fst (fetchBlockTemplate (unmarshal_to (Some example_reply, None)) example_memory
         (example_server\<lparr>blockTemplate := Some example_template\<rparr>) example_envelope) = Return True \<and>
   prevHash example_template = PrevHash (example_reply\<lparr>PrevHash := ''abc''\<rparr>) \<and>
   fetchBlockTemplate (unmarshal_to (Some (example_reply\<lparr>PrevHash := ''abc''\<rparr>), None)) example_memory
         (example_server\<lparr>blockTemplate := Some example_template\<rparr>) example_envelope =
     (Return False, example_server\<lparr>blockTemplate := Some example_template\<rparr>, example_memory)"
proof -
  let ?s = "example_server\<lparr>blockTemplate := Some example_template\<rparr>"
  let ?same = "example_reply\<lparr>PrevHash := ''abc''\<rparr>"
  have g: "GetBlockTemplate (unmarshal_to (Some rep, None)) r example_envelope =
      (Return (Some rep, None), r)" for rep r
    by (simp add: example_envelope_def GetBlockTemplate_no_error unmarshal_to_def)
  have 1: "blockTemplate example_server = None" by (simp add: example_server_def)
  have 2: "blockTemplate ?s = Some example_template" by simp
  have 3: "prevHash example_template \<noteq> PrevHash example_reply"
    by (simp add: example_template_def example_reply_def)
  have 4: "prevHash example_template = PrevHash ?same"
    by (simp add: example_template_def)
  have 5: "PrevHash ?same \<noteq> []" by simp
  from novelty_policy [OF g [of example_reply "rpc example_server"], of "[]"] 1
  have a: "fst (fetchBlockTemplate (unmarshal_to (Some example_reply, None)) [] example_server
         example_envelope) = Return True" by simp
  from novelty_policy [OF g [of example_reply "rpc ?s"], of example_memory] 2 3
  have b: "fst (fetchBlockTemplate (unmarshal_to (Some example_reply, None)) example_memory ?s
         example_envelope) = Return True" by simp
  from novelty_policy [OF g [of ?same "rpc ?s"], of example_memory] 2 4 5
  have c: "fetchBlockTemplate (unmarshal_to (Some ?same, None)) example_memory ?s example_envelope =
     (Return False, ?s, example_memory)" by simp
  show ?thesis using g [of example_reply "rpc example_server"] 1 a 2 3 b 4 c by (intro conjI)
qed

lemma hex_Decode_valid_length:
  "snd (hex_Decode s) = None \<Longrightarrow> length (fst (hex_Decode s)) = length s div 2"
  by (induction s rule: hex_Decode.induct) (auto split: option.splits prod.splits)

lemma newTemplate_fields:
  "diffInt64 (fst (newTemplate m reply)) = Difficulty reply"
  "difficulty (fst (newTemplate m reply)) = sint (Difficulty reply)"
  "height (fst (newTemplate m reply)) = Height reply"
  "reservedOffset (fst (newTemplate m reply)) = ReservedOffset reply"
  "prevHash (fst (newTemplate m reply)) = PrevHash reply"
  "seedHash (fst (newTemplate m reply)) = SeedHash reply"
  "nextSeedHash (fst (newTemplate m reply)) = NextSeedHash reply"
  by (simp_all add: newTemplate_def hex_DecodeString_def split: prod.split)

lemma newTemplate_buffer:
  "buffer (fst (newTemplate m reply)) =
     \<lparr>arr = length m, off = 0, len = length (fst (hex_Decode (Blob reply))),
      cap = length (Blob reply) div 2\<rparr>"
  "snd (newTemplate m reply) =
     m @ [fst (hex_Decode (Blob reply)) @
          replicate (length (Blob reply) div 2 - length (fst (hex_Decode (Blob reply)))) 0]"
  by (simp_all add: newTemplate_def hex_DecodeString_def split: prod.split)

lemma newTemplate_bytes:
  "bytes_of (snd (newTemplate m reply)) (buffer (fst (newTemplate m reply))) =
     fst (hex_Decode (Blob reply))"
  by (simp add: newTemplate_buffer bytes_of_def)

lemma fetch_unchanged_or_published:
  "(fst (fetchBlockTemplate unmarshal m s tr) \<noteq> Return True \<and>
    blockTemplate (fst (snd (fetchBlockTemplate unmarshal m s tr))) = blockTemplate s \<and>
    snd (snd (fetchBlockTemplate unmarshal m s tr)) = m) \<or>
   (\<exists>reply. GetBlockTemplate unmarshal (rpc s) tr = (Return (Some reply, None), rpc s) \<and>
      fetchBlockTemplate unmarshal m s tr = publish m s reply)"
proof -
  obtain res r' where g: "GetBlockTemplate unmarshal (rpc s) tr = (res, r')" by fastforce
  show ?thesis
  proof (cases res)
    case (Panic p)
    then show ?thesis using fetch_on_panic [of unmarshal s tr p r' m] g by simp
  next
    case (Return x)
    obtain reply err where x: "x = (reply, err)" by fastforce
    show ?thesis
    proof (cases err)
      case (Some e)
      then show ?thesis using fetch_on_error [of unmarshal s tr reply e r' m] g Return x by simp
    next
      case None
      note noerr = this
      show ?thesis
      proof (cases reply)
        case None
        then show ?thesis
          using fetch_on_nil_reply [of unmarshal s tr r' m] g Return x noerr by simp
      next
        case (Some rep)
        have g': "GetBlockTemplate unmarshal (rpc s) tr = (Return (Some rep, None), r')"
          using g Return x noerr Some by simp
        have r': "r' = rpc s" using g' by (rule GetBlockTemplate_success_state)
        show ?thesis
          using fetch_on_reply [OF g', of m] g' r'
          by (auto simp: publish_result split: option.splits if_splits)
      qed
    qed
  qed
qed

lemma invalid_hex_is_published:
  "fetchBlockTemplate (unmarshal_to (Some (example_reply\<lparr>Blob := ''01zz''\<rparr>), None)) []
       example_server example_envelope =
     (Return True,
      example_server\<lparr>blockTemplate := Some
        \<lparr>diffInt64 = 1000, height = 101, difficulty = 1000, reservedOffset = 2, prevHash = ''xyz'',
         buffer = \<lparr>arr = 0, off = 0, len = 1, cap = 2\<rparr>, seedHash = ''s'', nextSeedHash = ''n''\<rparr>\<rparr>,
      [[1, 0]])"
  by (simp add: fetchBlockTemplate_def GetBlockTemplate_no_error example_envelope_def
      unmarshal_to_def example_server_def example_reply_def rpc_def currentBlockTemplate_def
      publish_def newTemplate_def hex_DecodeString_def fromHexChar_def)

text \<open>
  Claim C1, as stated, has every published template satisfy
  \<open>reservedOffset + 7 \<le> len(buffer)\<close>. The code checks nothing of the reply: a reply
  with the one-byte blob \<open>00\<close> (valid hex) and reserved offset 0 is published, and the
  stored template then has \<open>0 + 7 > 1\<close>.
\<close>

theorem short_blob_counterexample:
  "fst (fetchBlockTemplate
         (unmarshal_to (Some (example_reply\<lparr>Blob := ''00'', ReservedOffset := 0\<rparr>), None)) []
         example_server example_envelope) = Return True \<and>
   blockTemplate (fst (snd (fetchBlockTemplate
         (unmarshal_to (Some (example_reply\<lparr>Blob := ''00'', ReservedOffset := 0\<rparr>), None)) []
         example_server example_envelope))) \<noteq> None \<and>
   \<not> reservedOffset (the (blockTemplate (fst (snd (fetchBlockTemplate
         (unmarshal_to (Some (example_reply\<lparr>Blob := ''00'', ReservedOffset := 0\<rparr>), None)) []
         example_server example_envelope))))) + 7
     \<le> int (len (buffer (the (blockTemplate (fst (snd (fetchBlockTemplate
         (unmarshal_to (Some (example_reply\<lparr>Blob := ''00'', ReservedOffset := 0\<rparr>), None)) []
         example_server example_envelope)))))))"
  by (simp add: fetchBlockTemplate_def GetBlockTemplate_no_error example_envelope_def
      unmarshal_to_def example_server_def example_reply_def rpc_def currentBlockTemplate_def
      publish_def newTemplate_def hex_DecodeString_def fromHexChar_def)

text \<open>
  Claim C1, amended. When \<open>GetBlockTemplate\<close> returns an error, and when it returns a
  reply that is not novel (a template is stored with the reply's \<open>prevHash\<close>, and that
  hash is not empty or the reply's height is not greater), \<open>fetchBlockTemplate\<close>
  returns false; whenever it does not return true, the stored template and the byte
  store are as before. When it returns true, \<open>GetBlockTemplate\<close> gave a reply without an
  error, and the one stored template has every scalar field from that reply
  (\<open>diffInt64\<close> and \<open>difficulty\<close> both from its difficulty); the arrays that existed
  are untouched. For a reply whose blob is valid hex, the buffer of the published
  template holds the decoded bytes, \<open>len(blob)/2\<close> of them, and the invariant
  \<open>reservedOffset + 7 \<le> len(buffer)\<close> holds of it exactly when the reply's offset and
  blob satisfy it. Nothing is said of the buffer when the blob is not valid hex.
\<close>

theorem publication_is_one_store:
  "(\<forall>reply err r'. GetBlockTemplate unmarshal (rpc s) tr = (Return (reply, Some err), r') \<longrightarrow>
      fetchBlockTemplate unmarshal m s tr = (Return False, s\<lparr>upstream := r'\<rparr>, m)) \<and>
   (\<forall>reply r' t. GetBlockTemplate unmarshal (rpc s) tr = (Return (Some reply, None), r') \<and>
      blockTemplate s = Some t \<and> prevHash t = PrevHash reply \<and>
      \<not> (PrevHash reply = [] \<and> height t <s Height reply) \<longrightarrow>
      fetchBlockTemplate unmarshal m s tr = (Return False, s, m)) \<and>
   (fst (fetchBlockTemplate unmarshal m s tr) \<noteq> Return True \<longrightarrow>
      blockTemplate (fst (snd (fetchBlockTemplate unmarshal m s tr))) = blockTemplate s \<and>
      snd (snd (fetchBlockTemplate unmarshal m s tr)) = m) \<and>
   (fst (fetchBlockTemplate unmarshal m s tr) = Return True \<longrightarrow>
      (\<exists>reply t m'.
         GetBlockTemplate unmarshal (rpc s) tr = (Return (Some reply, None), rpc s) \<and>
         fetchBlockTemplate unmarshal m s tr = (Return True, s\<lparr>blockTemplate := Some t\<rparr>, m') \<and>
         diffInt64 t = Difficulty reply \<and> difficulty t = sint (Difficulty reply) \<and>
         height t = Height reply \<and> reservedOffset t = ReservedOffset reply \<and>
         prevHash t = PrevHash reply \<and> seedHash t = SeedHash reply \<and>
         nextSeedHash t = NextSeedHash reply \<and>
         take (length m) m' = m \<and>
         (snd (hex_Decode (Blob reply)) = None \<longrightarrow>
            bytes_of m' (buffer t) = fst (hex_Decode (Blob reply)) \<and>
            len (buffer t) = length (Blob reply) div 2 \<and>
            (reservedOffset t + 7 \<le> int (len (buffer t)) \<longleftrightarrow>
             ReservedOffset reply + 7 \<le> int (length (Blob reply) div 2)))))"
proof (intro conjI allI impI)
  fix reply err r'
  assume "GetBlockTemplate unmarshal (rpc s) tr = (Return (reply, Some err), r')"
  then show "fetchBlockTemplate unmarshal m s tr = (Return False, s\<lparr>upstream := r'\<rparr>, m)"
    by (rule fetch_on_error)
next
  fix reply r' t
  assume a: "GetBlockTemplate unmarshal (rpc s) tr = (Return (Some reply, None), r') \<and>
      blockTemplate s = Some t \<and> prevHash t = PrevHash reply \<and>
      \<not> (PrevHash reply = [] \<and> height t <s Height reply)"
  then have g: "GetBlockTemplate unmarshal (rpc s) tr = (Return (Some reply, None), r')"
    by (rule conjunct1)
  show "fetchBlockTemplate unmarshal m s tr = (Return False, s, m)"
  proof -
    from a have st: "blockTemplate s = Some t" and ph: "prevHash t = PrevHash reply"
      and nn: "\<not> (PrevHash reply = [] \<and> height t <s Height reply)" by blast+
    have c: "(PrevHash reply = [] \<and> height t <s Height reply) = False" using nn by blast
    show ?thesis unfolding fetch_on_reply [OF g] st by (simp only: option.case ph c if_False) simp
  qed
next
  assume "fst (fetchBlockTemplate unmarshal m s tr) \<noteq> Return True"
  then show "blockTemplate (fst (snd (fetchBlockTemplate unmarshal m s tr))) = blockTemplate s"
    and "snd (snd (fetchBlockTemplate unmarshal m s tr)) = m"
    using fetch_unchanged_or_published [of unmarshal m s tr] by (auto simp: publish_result)
next
  assume "fst (fetchBlockTemplate unmarshal m s tr) = Return True"
  then obtain reply where
    g: "GetBlockTemplate unmarshal (rpc s) tr = (Return (Some reply, None), rpc s)" and
    f: "fetchBlockTemplate unmarshal m s tr = publish m s reply"
    using fetch_unchanged_or_published [of unmarshal m s tr] by auto
  let ?t = "fst (newTemplate m reply)"
  let ?m' = "snd (newTemplate m reply)"
  have 1: "fetchBlockTemplate unmarshal m s tr = (Return True, s\<lparr>blockTemplate := Some ?t\<rparr>, ?m')"
    using f by (simp add: publish_result)
  have 2: "take (length m) ?m' = m" by (simp add: newTemplate_buffer)
  have 3: "bytes_of ?m' (buffer ?t) = fst (hex_Decode (Blob reply))" by (rule newTemplate_bytes)
  have 4: "len (buffer ?t) = length (Blob reply) div 2" if "snd (hex_Decode (Blob reply)) = None"
    using hex_Decode_valid_length [OF that] by (simp add: newTemplate_buffer)
  have 5: "reservedOffset ?t + 7 \<le> int (len (buffer ?t)) \<longleftrightarrow>
           ReservedOffset reply + 7 \<le> int (length (Blob reply) div 2)"
    if "snd (hex_Decode (Blob reply)) = None"
    using 4 [OF that] by (simp add: newTemplate_fields)
  have 6: "snd (hex_Decode (Blob reply)) = None \<longrightarrow>
            bytes_of ?m' (buffer ?t) = fst (hex_Decode (Blob reply)) \<and>
            len (buffer ?t) = length (Blob reply) div 2 \<and>
            (reservedOffset ?t + 7 \<le> int (len (buffer ?t)) \<longleftrightarrow>
             ReservedOffset reply + 7 \<le> int (length (Blob reply) div 2))"
    using 3 4 5 by blast
  have "GetBlockTemplate unmarshal (rpc s) tr = (Return (Some reply, None), rpc s) \<and>
         fetchBlockTemplate unmarshal m s tr = (Return True, s\<lparr>blockTemplate := Some ?t\<rparr>, ?m') \<and>
         diffInt64 ?t = Difficulty reply \<and> difficulty ?t = sint (Difficulty reply) \<and>
         height ?t = Height reply \<and> reservedOffset ?t = ReservedOffset reply \<and>
         prevHash ?t = PrevHash reply \<and> seedHash ?t = SeedHash reply \<and>
         nextSeedHash ?t = NextSeedHash reply \<and>
         take (length m) ?m' = m \<and>
         (snd (hex_Decode (Blob reply)) = None \<longrightarrow>
            bytes_of ?m' (buffer ?t) = fst (hex_Decode (Blob reply)) \<and>
            len (buffer ?t) = length (Blob reply) div 2 \<and>
            (reservedOffset ?t + 7 \<le> int (len (buffer ?t)) \<longleftrightarrow>
             ReservedOffset reply + 7 \<le> int (length (Blob reply) div 2)))"
    using g 1 newTemplate_fields [of m reply] 2 6 by (intro conjI)
  then show "\<exists>reply t m'.
         GetBlockTemplate unmarshal (rpc s) tr = (Return (Some reply, None), rpc s) \<and>
         fetchBlockTemplate unmarshal m s tr = (Return True, s\<lparr>blockTemplate := Some t\<rparr>, m') \<and>
         diffInt64 t = Difficulty reply \<and> difficulty t = sint (Difficulty reply) \<and>
         height t = Height reply \<and> reservedOffset t = ReservedOffset reply \<and>
         prevHash t = PrevHash reply \<and> seedHash t = SeedHash reply \<and>
         nextSeedHash t = NextSeedHash reply \<and>
         take (length m) m' = m \<and>
         (snd (hex_Decode (Blob reply)) = None \<longrightarrow>
            bytes_of m' (buffer t) = fst (hex_Decode (Blob reply)) \<and>
            len (buffer t) = length (Blob reply) div 2 \<and>
            (reservedOffset t + 7 \<le> int (len (buffer t)) \<longleftrightarrow>
             ReservedOffset reply + 7 \<le> int (length (Blob reply) div 2)))"
    by (intro exI)
qed

theorem publication_is_one_store_witness:
  "GetBlockTemplate (unmarshal_to (None :: GetBlockTemplateReply option, Some ''bad''))
       (rpc example_server) example_envelope = (Return (None, Some ''bad''), rpc example_server) \<and>
   fetchBlockTemplate (unmarshal_to (None, Some ''bad'')) [] example_server example_envelope =
     (Return False, example_server, []) \<and>
   fst (fetchBlockTemplate (unmarshal_to (None, Some ''bad'')) [] example_server example_envelope)
     \<noteq> Return True \<and>
   blockTemplate (fst (snd (fetchBlockTemplate (unmarshal_to (None, Some ''bad'')) []
       example_server example_envelope))) = blockTemplate example_server \<and>
   GetBlockTemplate (unmarshal_to (Some (example_reply\<lparr>PrevHash := ''abc''\<rparr>), None))
       (rpc (example_server\<lparr>blockTemplate := Some example_template\<rparr>)) example_envelope =
     (Return (Some (example_reply\<lparr>PrevHash := ''abc''\<rparr>), None),
      rpc (example_server\<lparr>blockTemplate := Some example_template\<rparr>)) \<and>
   blockTemplate (example_server\<lparr>blockTemplate := Some example_template\<rparr>) = Some example_template \<and>
   prevHash example_template = PrevHash (example_reply\<lparr>PrevHash := ''abc''\<rparr>) \<and>
   \<not> (PrevHash (example_reply\<lparr>PrevHash := ''abc''\<rparr>) = [] \<and>
      height example_template <s Height (example_reply\<lparr>PrevHash := ''abc''\<rparr>)) \<and>
   fetchBlockTemplate (unmarshal_to (Some (example_reply\<lparr>PrevHash := ''abc''\<rparr>), None))
       example_memory (example_server\<lparr>blockTemplate := Some example_template\<rparr>) example_envelope =
     (Return False, example_server\<lparr>blockTemplate := Some example_template\<rparr>, example_memory) \<and>
   fst (fetchBlockTemplate (unmarshal_to (Some example_reply, None)) [] example_server
       example_envelope) = Return True \<and>
   snd (hex_Decode (Blob example_reply)) = None \<and>
   (\<exists>t m'. fetchBlockTemplate (unmarshal_to (Some example_reply, None)) [] example_server
         example_envelope = (Return True, example_server\<lparr>blockTemplate := Some t\<rparr>, m') \<and>
       height t = Height example_reply \<and>
       bytes_of m' (buffer t) = fst (hex_Decode (Blob example_reply)) \<and>
       reservedOffset t + 7 \<le> int (len (buffer t)))"
proof -
  let ?bad = "unmarshal_to (None :: GetBlockTemplateReply option, Some ''bad'')"
  let ?good = "unmarshal_to (Some example_reply, None)"
  let ?same = "example_reply\<lparr>PrevHash := ''abc''\<rparr>"
  let ?old = "unmarshal_to (Some ?same, None)"
  let ?s = "example_server\<lparr>blockTemplate := Some example_template\<rparr>"
  have gb: "GetBlockTemplate ?bad (rpc example_server) example_envelope =
      (Return (None, Some ''bad''), rpc example_server)"
    by (simp add: example_envelope_def GetBlockTemplate_no_error unmarshal_to_def)
  have gg: "GetBlockTemplate ?good (rpc example_server) example_envelope =
      (Return (Some example_reply, None), rpc example_server)"
    by (simp add: example_envelope_def GetBlockTemplate_no_error unmarshal_to_def)
  have go: "GetBlockTemplate ?old (rpc ?s) example_envelope = (Return (Some ?same, None), rpc ?s)"
    by (simp add: example_envelope_def GetBlockTemplate_no_error unmarshal_to_def)
  have st: "blockTemplate ?s = Some example_template" by simp
  have ph: "prevHash example_template = PrevHash ?same" by (simp add: example_template_def)
  have nn: "\<not> (PrevHash ?same = [] \<and> height example_template <s Height ?same)" by simp
  have v: "snd (hex_Decode (Blob example_reply)) = None"
    by (simp add: example_reply_def fromHexChar_def)
  have o: "ReservedOffset example_reply + 7 \<le> int (length (Blob example_reply) div 2)"
    by (simp add: example_reply_def)
  have t: "fst (fetchBlockTemplate ?good [] example_server example_envelope) = Return True"
  proof -
    have "blockTemplate example_server = None" by (simp add: example_server_def)
    then show ?thesis by (simp add: fetch_on_reply [OF gg] publish_result)
  qed
  note bad = publication_is_one_store [of ?bad example_server example_envelope "[]"]
  note good = publication_is_one_store [of ?good example_server example_envelope "[]"]
  note old = publication_is_one_store [of ?old ?s example_envelope example_memory]
  have 1: "fetchBlockTemplate ?bad [] example_server example_envelope =
      (Return False, example_server, [])"
    using bad gb by (simp add: same_upstream)
  have 2: "fst (fetchBlockTemplate ?bad [] example_server example_envelope) \<noteq> Return True"
    unfolding 1 by simp
  have 3: "blockTemplate (fst (snd (fetchBlockTemplate ?bad [] example_server example_envelope))) =
      blockTemplate example_server"
    using bad 2 by blast
  have 5: "fetchBlockTemplate ?old example_memory ?s example_envelope =
      (Return False, ?s, example_memory)"
    using old [THEN conjunct2, THEN conjunct1] go st ph nn by blast
  from good [THEN conjunct2, THEN conjunct2, THEN conjunct2, THEN mp, OF t]
  obtain reply t' m' where
    w: "GetBlockTemplate ?good (rpc example_server) example_envelope =
          (Return (Some reply, None), rpc example_server)"
      "fetchBlockTemplate ?good [] example_server example_envelope =
          (Return True, example_server\<lparr>blockTemplate := Some t'\<rparr>, m')"
      "height t' = Height reply"
      "snd (hex_Decode (Blob reply)) = None \<longrightarrow>
         bytes_of m' (buffer t') = fst (hex_Decode (Blob reply)) \<and>
         len (buffer t') = length (Blob reply) div 2 \<and>
         (reservedOffset t' + 7 \<le> int (len (buffer t')) \<longleftrightarrow>
          ReservedOffset reply + 7 \<le> int (length (Blob reply) div 2))"
    by (elim exE conjE) (rule that, assumption+)
  have r: "reply = example_reply" using w(1) gg by simp
  have 4: "\<exists>t m'. fetchBlockTemplate ?good [] example_server example_envelope =
         (Return True, example_server\<lparr>blockTemplate := Some t\<rparr>, m') \<and>
       height t = Height example_reply \<and>
       bytes_of m' (buffer t) = fst (hex_Decode (Blob example_reply)) \<and>
       reservedOffset t + 7 \<le> int (len (buffer t))"
    using w(2,3,4) v o unfolding r by blast
  show ?thesis using gb 1 2 3 go st ph nn 5 t v 4 by (intro conjI)
qed

end
